theory Spec2Isabelle
  imports Main "HOL-Library.Word" "HOL-Library.AList" "HOL-Library.Code_Target_Numeral"
begin

section \<open>foldersync: the sync engine and its S3 backend\<close>

text \<open>
  A shallow embedding of package \<open>sync\<close>: \<open>Sync\<close>, \<open>syncFiles\<close>, \<open>deleteExtras\<close> and
  \<open>validateSrc\<close> of the engine, the methods of \<open>S3Destination\<close> (\<open>fullKey\<close>, \<open>relKey\<close>,
  \<open>Put\<close>, \<open>Stat\<close>, \<open>List\<close>, \<open>Delete\<close>) and the \<open>mockDest\<close> of the package's tests.
  The Go standard library (\<open>os\<close>, \<open>path/filepath\<close>, \<open>strconv\<close>, \<open>strings\<close>, \<open>time\<close>) and the
  AWS SDK are not part of the package: the pure functions among them are defined here
  from their documented behaviour, the ones that read the local file system or talk to
  the service are fields of an environment record and of a client record.
\<close>

subsection \<open>Values of the Go runtime\<close>

type_synonym int64 = "64 word"

text \<open>
  An \<open>error\<close> value. The engine only ever inspects an error with \<open>os.IsNotExist\<close> and
  \<open>errors.As\<close> (for an \<open>awshttp.ResponseError\<close>), and builds new ones with \<open>fmt.Errorf\<close>;
  \<open>Errorf msg e\<close> is \<open>fmt.Errorf("msg: %w", e)\<close>.
\<close>

datatype error =
    ErrNotExist
  | ErrPermission
  | ErrNotDir
  | ErrOther string
  | ResponseError nat
  | Errorf string error
  | ErrSourceNotDirectory string

text \<open>
  \<open>os.IsNotExist(err)\<close>, applied to the error result of a call: false for \<open>nil\<close>, true
  for the "file does not exist" errors of package \<open>os\<close>; it does not look through the
  wrappers of \<open>fmt.Errorf\<close>.
\<close>

fun os_IsNotExist :: "error option \<Rightarrow> bool" where
  "os_IsNotExist None = False"
| "os_IsNotExist (Some ErrNotExist) = True"
| "os_IsNotExist (Some _) = False"

text \<open>
  \<open>errors.As(err, &re)\<close> for \<open>re *awshttp.ResponseError\<close>, followed by
  \<open>re.HTTPStatusCode()\<close>: the first response error on the unwrap chain, if any.
\<close>

fun as_ResponseError :: "error \<Rightarrow> nat option" where
  "as_ResponseError (ResponseError code) = Some code"
| "as_ResponseError (Errorf msg e) = as_ResponseError e"
| "as_ResponseError _ = None"

definition StatusNotFound :: nat where
  "StatusNotFound = 404"

text \<open>
  A \<open>time.Time\<close> without monotonic clock reading, as the instant it denotes: whole
  seconds since the Unix epoch (an \<open>int64\<close>, what \<open>t.Unix()\<close> returns) and the
  nanoseconds within that second (\<open>0 \<le> nsec < 10^9\<close>).
\<close>

record Time =
  unix_sec :: int64
  nsec :: nat

text \<open>\<open>t.Equal(u)\<close>: the same instant.\<close>

definition Equal :: "Time \<Rightarrow> Time \<Rightarrow> bool" where
  "Equal t u = (unix_sec t = unix_sec u \<and> nsec t = nsec u)"

text \<open>
  \<open>t.Truncate(d)\<close> rounds \<open>t\<close> down to a multiple of \<open>d\<close> since the zero time; the engine
  calls it with \<open>d = 1e9\<close> only (one second), and the zero time lies on a second boundary,
  so the result keeps the second and drops the nanoseconds. Other durations are not
  modelled: the function returns \<open>t\<close> for them, as Go does for \<open>d \<le> 0\<close>.
\<close>

definition Truncate :: "Time \<Rightarrow> int \<Rightarrow> Time" where
  "Truncate t d = (if d = 1000000000 then t\<lparr>nsec := 0\<rparr> else t)"

text \<open>\<open>t.Unix()\<close> and \<open>time.Unix(sec, 0)\<close>.\<close>

definition Unix :: "Time \<Rightarrow> int64" where
  "Unix t = unix_sec t"

definition time_Unix :: "int64 \<Rightarrow> nat \<Rightarrow> Time" where
  "time_Unix s n = \<lparr>unix_sec = s, nsec = n\<rparr>"

text \<open>
  The zero \<open>time.Time{}\<close>: January 1, year 1, 00:00:00 UTC, which is 62135596800 seconds
  before the Unix epoch.
\<close>

definition zero_Time :: Time where
  "zero_Time = \<lparr>unix_sec = word_of_int (- 62135596800), nsec = 0\<rparr>"

subsection \<open>Package strings and strconv\<close>

definition HasPrefix :: "string \<Rightarrow> string \<Rightarrow> bool" where
  "HasPrefix s p = (length p \<le> length s \<and> take (length p) s = p)"

definition HasSuffix :: "string \<Rightarrow> string \<Rightarrow> bool" where
  "HasSuffix s suf = (length suf \<le> length s \<and> drop (length s - length suf) s = suf)"

definition TrimPrefix :: "string \<Rightarrow> string \<Rightarrow> string" where
  "TrimPrefix s p = (if HasPrefix s p then drop (length p) s else s)"

definition TrimSuffix :: "string \<Rightarrow> string \<Rightarrow> string" where
  "TrimSuffix s suf = (if HasSuffix s suf then take (length s - length suf) s else s)"

text \<open>
  \<open>strconv.FormatInt(i, 10)\<close>: the decimal digits of \<open>i\<close>, most significant first, with a
  leading minus sign for a negative number.
\<close>

definition digit_char :: "nat \<Rightarrow> char" where
  "digit_char d = char_of (48 + d)"

fun format_nat :: "nat \<Rightarrow> string" where
  "format_nat n = (if n < 10 then [digit_char n] else format_nat (n div 10) @ [digit_char (n mod 10)])"

declare format_nat.simps [simp del]

definition FormatInt :: "int64 \<Rightarrow> string" where
  "FormatInt i = (if sint i < 0 then CHR ''-'' # format_nat (nat (- sint i)) else format_nat (nat (sint i)))"

text \<open>
  \<open>strconv.ParseInt(s, 10, 64)\<close>, with \<open>None\<close> for a non-nil error: an optional sign,
  then one or more decimal digits (base 10 is given, so no prefix and no underscores);
  a value outside the \<open>int64\<close> range is a range error.
\<close>

definition is_digit :: "char \<Rightarrow> bool" where
  "is_digit c = (48 \<le> (of_char c :: nat) \<and> (of_char c :: nat) \<le> 57)"

definition digit_val :: "char \<Rightarrow> nat" where
  "digit_val c = of_char c - 48"

definition parse_nat :: "string \<Rightarrow> nat" where
  "parse_nat ds = foldl (\<lambda>n c. n * 10 + digit_val c) 0 ds"

definition ParseInt :: "string \<Rightarrow> int64 option" where
  "ParseInt s =
     (if s = [] then None
      else let neg = (hd s = CHR ''-'');
               ds = (if hd s = CHR ''+'' \<or> hd s = CHR ''-'' then tl s else s)
           in if ds = [] \<or> \<not> list_all is_digit ds then None
              else let un = parse_nat ds
                   in if \<not> neg \<and> un \<ge> 2 ^ 63 then None
                      else if neg \<and> un > 2 ^ 63 then None
                      else Some (if neg then word_of_int (- int un) else word_of_int (int un)))"

subsection \<open>Key Mapper: fullKey and relKey of S3Destination\<close>

text \<open>The receiver's \<open>prefix\<close> field is the first argument.\<close>

definition fullKey :: "string \<Rightarrow> string \<Rightarrow> string" where
  "fullKey prefix rel =
     (let rel' = TrimPrefix rel ''/''
      in if prefix = [] then rel' else TrimSuffix prefix ''/'' @ ''/'' @ rel')"

definition relKey :: "string \<Rightarrow> string \<Rightarrow> string" where
  "relKey prefix full =
     (if prefix = [] then full else TrimPrefix full (TrimSuffix prefix ''/'' @ ''/''))"

subsection \<open>The store contract and the local host\<close>

record ObjectMeta =
  Size :: int64
  ModTime :: Time

text \<open>
  The \<open>Destination\<close> interface. A destination is a value with state of type \<open>'s\<close>; each
  method takes the state and returns its result with the state after the call. The
  \<open>io.Reader\<close> given to \<open>Put\<close> is the sequence of bytes it yields; the context argument
  is left out (cancellation is not modelled).
\<close>

record 's Destination =
  Dst_Put :: "string \<Rightarrow> string \<Rightarrow> int64 \<Rightarrow> Time \<Rightarrow> 's \<Rightarrow> error option \<times> 's"
  Dst_Stat :: "string \<Rightarrow> 's \<Rightarrow> (error + ObjectMeta option) \<times> 's"
  Dst_List :: "'s \<Rightarrow> (error + string list) \<times> 's"
  Dst_Delete :: "string \<Rightarrow> 's \<Rightarrow> error option \<times> 's"

text \<open>\<open>fs.FileInfo\<close> and \<open>fs.DirEntry\<close>, with the methods the engine calls.\<close>

record FileInfo =
  fi_Size :: int64
  fi_ModTime :: Time
  fi_IsDir :: bool

record DirEntry =
  IsDir :: bool
  Info :: "error + FileInfo"

text \<open>
  One call of the function given to \<open>filepath.WalkDir\<close>: \<open>fn(path, d, err)\<close>. WalkDir
  passes a non-nil \<open>d\<close> whenever \<open>err\<close> is nil, and the engine's function does not look at
  \<open>d\<close> when \<open>err\<close> is not nil, so a call is either an error report or an entry.
\<close>

datatype visit = VisitErr string error | VisitEntry string DirEntry

text \<open>
  The local host, which the engine only reads and which does not change while it runs:
  \<open>os.Stat\<close>, \<open>os.Open\<close> (the bytes the opened file yields), the calls
  \<open>filepath.WalkDir\<close> makes for a root when no call returns an error (lexical order,
  directories before their entries), and the path functions of the platform.
\<close>

record host =
  os_Stat :: "string \<Rightarrow> error + FileInfo"
  os_Open :: "string \<Rightarrow> error + string"
  WalkDir_visits :: "string \<Rightarrow> visit list"
  filepath_Rel :: "string \<Rightarrow> string \<Rightarrow> error + string"
  filepath_ToSlash :: "string \<Rightarrow> string"
  filepath_FromSlash :: "string \<Rightarrow> string"
  filepath_Join :: "string \<Rightarrow> string \<Rightarrow> string"

text \<open>
  \<open>filepath.WalkDir(root, fn)\<close>: \<open>fn\<close> is called for each visit in turn, and the first
  error it returns ends the walk and is the result. (The sentinels \<open>fs.SkipDir\<close> and
  \<open>fs.SkipAll\<close>, for which WalkDir would skip entries and return nil, are not among the
  errors of the model: the engine never creates them, and a destination is taken not to
  return them.)
\<close>

fun walk :: "(visit \<Rightarrow> 'a \<Rightarrow> error option \<times> 'a) \<Rightarrow> visit list \<Rightarrow> 'a \<Rightarrow> error option \<times> 'a" where
  "walk fn [] st = (None, st)"
| "walk fn (v # vs) st =
     (case fn v st of
        (Some err, st') \<Rightarrow> (Some err, st')
      | (None, st') \<Rightarrow> walk fn vs st')"

definition filepath_WalkDir ::
  "host \<Rightarrow> string \<Rightarrow> (visit \<Rightarrow> 'a \<Rightarrow> error option \<times> 'a) \<Rightarrow> 'a \<Rightarrow> error option \<times> 'a" where
  "filepath_WalkDir h root fn st = walk fn (WalkDir_visits h root) st"

subsection \<open>The engine: Sync, syncFiles, deleteExtras, validateSrc\<close>

record 's Options =
  Src :: string
  Dst :: "'s Destination"
  DryRun :: bool
  Delete :: bool

text \<open>
  What a run leaves behind: the state of the destination, the lines written to standard
  output (\<open>ActUpload k\<close> is the line \<open>upload k\<close>, \<open>ActDelete k\<close> the line \<open>delete k\<close>), and
  the calls made on the destination, in order. The list of calls is not a variable of
  the program: it records each method call where the program makes it.
\<close>

datatype action = ActUpload string | ActDelete string

datatype call = StatCall string | PutCall string string int64 Time | ListCall | DeleteCall string

record 's run =
  dst :: 's
  printed :: "action list"
  calls :: "call list"

text \<open>The function literal that \<open>syncFiles\<close> gives to \<open>filepath.WalkDir\<close>.\<close>

definition syncFiles_fn :: "host \<Rightarrow> 's Options \<Rightarrow> visit \<Rightarrow> 's run \<Rightarrow> error option \<times> 's run" where
  "syncFiles_fn h opts v st =
     (case v of
        VisitErr path err \<Rightarrow> (Some err, st)
      | VisitEntry path d \<Rightarrow>
          if IsDir d then (None, st)
          else
            (case filepath_Rel h (Src opts) path of
               Inl err \<Rightarrow> (Some err, st)
             | Inr rel0 \<Rightarrow>
                 let rel = filepath_ToSlash h rel0 in
                 (case Info d of
                    Inl err \<Rightarrow> (Some err, st)
                  | Inr info \<Rightarrow>
                      (case Dst_Stat (Dst opts) rel (dst st) of
                         (res, s1) \<Rightarrow>
                           let st1 = st\<lparr>dst := s1, calls := calls st @ [StatCall rel]\<rparr> in
                           (case res of
                              Inl err \<Rightarrow> (Some (Errorf (''stat '' @ rel) err), st1)
                            | Inr meta \<Rightarrow>
                                if (case meta of
                                      None \<Rightarrow> False
                                    | Some m \<Rightarrow>
                                        Equal (ModTime m) (Truncate (fi_ModTime info) 1000000000)
                                        \<and> Size m = fi_Size info)
                                then (None, st1)
                                else
                                  let st2 = st1\<lparr>printed := printed st1 @ [ActUpload rel]\<rparr> in
                                  if DryRun opts then (None, st2)
                                  else
                                    (case os_Open h path of
                                       Inl err \<Rightarrow> (Some err, st2)
                                     | Inr f \<Rightarrow>
                                         (case Dst_Put (Dst opts) rel f (fi_Size info) (fi_ModTime info) (dst st2) of
                                            (perr, s3) \<Rightarrow>
                                              (perr, st2\<lparr>dst := s3,
                                                 calls := calls st2 @ [PutCall rel f (fi_Size info) (fi_ModTime info)]\<rparr>))))))))"

definition syncFiles :: "host \<Rightarrow> 's Options \<Rightarrow> 's run \<Rightarrow> error option \<times> 's run" where
  "syncFiles h opts st = filepath_WalkDir h (Src opts) (syncFiles_fn h opts) st"

text \<open>The loop of \<open>deleteExtras\<close> over the listed keys.\<close>

fun deleteExtras_loop :: "host \<Rightarrow> 's Options \<Rightarrow> string list \<Rightarrow> 's run \<Rightarrow> error option \<times> 's run" where
  "deleteExtras_loop h opts [] st = (None, st)"
| "deleteExtras_loop h opts (key # keys) st =
     (let localPath = filepath_Join h (Src opts) (filepath_FromSlash h key) in
      if os_IsNotExist (case os_Stat h localPath of Inl err \<Rightarrow> Some err | Inr info \<Rightarrow> None)
      then
        let st1 = st\<lparr>printed := printed st @ [ActDelete key]\<rparr> in
        if \<not> DryRun opts
        then
          (case Dst_Delete (Dst opts) key (dst st1) of
             (derr, s2) \<Rightarrow>
               let st2 = st1\<lparr>dst := s2, calls := calls st1 @ [DeleteCall key]\<rparr> in
               (case derr of
                  Some err \<Rightarrow> (Some (Errorf (''delete '' @ key) err), st2)
                | None \<Rightarrow> deleteExtras_loop h opts keys st2))
        else deleteExtras_loop h opts keys st1
      else deleteExtras_loop h opts keys st)"

definition deleteExtras :: "host \<Rightarrow> 's Options \<Rightarrow> 's run \<Rightarrow> error option \<times> 's run" where
  "deleteExtras h opts st =
     (case Dst_List (Dst opts) (dst st) of
        (res, s1) \<Rightarrow>
          let st1 = st\<lparr>dst := s1, calls := calls st @ [ListCall]\<rparr> in
          (case res of
             Inl err \<Rightarrow> (Some err, st1)
           | Inr keys \<Rightarrow> deleteExtras_loop h opts keys st1))"

definition validateSrc :: "host \<Rightarrow> string \<Rightarrow> error option" where
  "validateSrc h src =
     (case os_Stat h src of
        Inl err \<Rightarrow> Some (Errorf ''source'' err)
      | Inr info \<Rightarrow> if \<not> fi_IsDir info then Some (ErrSourceNotDirectory src) else None)"

definition Sync :: "host \<Rightarrow> 's Options \<Rightarrow> 's run \<Rightarrow> error option \<times> 's run" where
  "Sync h opts st =
     (case validateSrc h (Src opts) of
        Some err \<Rightarrow> (Some err, st)
      | None \<Rightarrow>
          (case syncFiles h opts st of
             (Some err, st1) \<Rightarrow> (Some err, st1)
           | (None, st1) \<Rightarrow>
               if Delete opts then deleteExtras h opts st1 else (None, st1)))"

subsection \<open>S3Destination\<close>

text \<open>
  The part of the AWS SDK the backend calls, as a client with state \<open>'c\<close>:
  \<open>client.HeadObject\<close>, \<open>uploader.Upload\<close>, the pages a \<open>ListObjectsV2\<close> paginator
  yields (each a list of keys or an error), and \<open>client.DeleteObject\<close>.
\<close>

record HeadObjectOutput =
  ContentLength :: "int64 option"
  Metadata :: "(string \<times> string) list"

record PutObjectInput =
  in_Bucket :: string
  in_Key :: string
  in_Body :: string
  in_StorageClass :: string
  in_Metadata :: "(string \<times> string) list"

record 'c S3Client =
  HeadObject :: "string \<Rightarrow> string \<Rightarrow> 'c \<Rightarrow> (error + HeadObjectOutput) \<times> 'c"
  Upload :: "PutObjectInput \<Rightarrow> 'c \<Rightarrow> error option \<times> 'c"
  ListObjectsV2 :: "string \<Rightarrow> string \<Rightarrow> 'c \<Rightarrow> (error + string list) list \<times> 'c"
  DeleteObject :: "string \<Rightarrow> string \<Rightarrow> 'c \<Rightarrow> error option \<times> 'c"

record 'c S3Destination =
  client :: "'c S3Client"
  bucket :: string
  prefix :: string
  storageClass :: string

definition aws_ToInt64 :: "int64 option \<Rightarrow> int64" where
  "aws_ToInt64 p = (case p of None \<Rightarrow> 0 | Some v \<Rightarrow> v)"

definition S3_Put :: "'c S3Destination \<Rightarrow> string \<Rightarrow> string \<Rightarrow> int64 \<Rightarrow> Time \<Rightarrow> 'c \<Rightarrow> error option \<times> 'c" where
  "S3_Put d rel r sz modTime c =
     Upload (client d)
       \<lparr>in_Bucket = bucket d, in_Key = fullKey (prefix d) rel, in_Body = r,
        in_StorageClass = storageClass d,
        in_Metadata = [(''mtime'', FormatInt (Unix modTime)), (''size'', FormatInt sz)]\<rparr> c"

definition S3_Stat :: "'c S3Destination \<Rightarrow> string \<Rightarrow> 'c \<Rightarrow> (error + ObjectMeta option) \<times> 'c" where
  "S3_Stat d rel c =
     (case HeadObject (client d) (bucket d) (fullKey (prefix d) rel) c of
        (Inl err, c') \<Rightarrow>
          if as_ResponseError err = Some StatusNotFound then (Inr None, c') else (Inl err, c')
      | (Inr out, c') \<Rightarrow>
          let meta = \<lparr>Size = aws_ToInt64 (ContentLength out), ModTime = zero_Time\<rparr> in
          (Inr (Some
             (case map_of (Metadata out) ''mtime'' of
                None \<Rightarrow> meta
              | Some v \<Rightarrow>
                  (case ParseInt v of
                     None \<Rightarrow> meta
                   | Some ts \<Rightarrow> meta\<lparr>ModTime := time_Unix ts 0\<rparr>))), c'))"

fun S3_List_pages :: "string \<Rightarrow> (error + string list) list \<Rightarrow> string list \<Rightarrow> error + string list" where
  "S3_List_pages pfx [] keys = Inr keys"
| "S3_List_pages pfx (Inl err # pages) keys = Inl (Errorf ''list objects'' err)"
| "S3_List_pages pfx (Inr contents # pages) keys =
     S3_List_pages pfx pages (keys @ map (relKey pfx) contents)"

definition S3_List :: "'c S3Destination \<Rightarrow> 'c \<Rightarrow> (error + string list) \<times> 'c" where
  "S3_List d c =
     (let prefix' = (if prefix d \<noteq> [] then TrimSuffix (prefix d) ''/'' @ ''/'' else prefix d) in
      case ListObjectsV2 (client d) (bucket d) prefix' c of
        (pages, c') \<Rightarrow> (S3_List_pages (prefix d) pages [], c'))"

definition S3_Delete :: "'c S3Destination \<Rightarrow> string \<Rightarrow> 'c \<Rightarrow> error option \<times> 'c" where
  "S3_Delete d rel c = DeleteObject (client d) (bucket d) (fullKey (prefix d) rel) c"

text \<open>An \<open>S3Destination\<close> as a \<open>Destination\<close>.\<close>

definition S3_Destination :: "'c S3Destination \<Rightarrow> 'c Destination" where
  "S3_Destination d =
     \<lparr>Dst_Put = S3_Put d, Dst_Stat = S3_Stat d, Dst_List = S3_List d, Dst_Delete = S3_Delete d\<rparr>"

subsection \<open>mockDest, the in-memory destination of the tests\<close>

text \<open>
  The Go map \<open>objects\<close> is an association list with one entry per key; \<open>List\<close> ranges over
  the map, whose iteration order Go leaves open, and the model returns the keys in the
  order of the list.
\<close>

record mockDest =
  objects :: "(string \<times> ObjectMeta) list"
  putCalls :: "string list"
  deleteCalls :: "string list"

definition newMockDest :: mockDest where
  "newMockDest = \<lparr>objects = [], putCalls = [], deleteCalls = []\<rparr>"

definition mock_Put :: "string \<Rightarrow> string \<Rightarrow> int64 \<Rightarrow> Time \<Rightarrow> mockDest \<Rightarrow> error option \<times> mockDest" where
  "mock_Put key r sz modTime m =
     (None, m\<lparr>putCalls := putCalls m @ [key],
              objects := AList.update key \<lparr>Size = sz, ModTime = Truncate modTime 1000000000\<rparr> (objects m)\<rparr>)"

definition mock_Stat :: "string \<Rightarrow> mockDest \<Rightarrow> (error + ObjectMeta option) \<times> mockDest" where
  "mock_Stat key m = (Inr (map_of (objects m) key), m)"

definition mock_List :: "mockDest \<Rightarrow> (error + string list) \<times> mockDest" where
  "mock_List m = (Inr (map fst (objects m)), m)"

definition mock_Delete :: "string \<Rightarrow> mockDest \<Rightarrow> error option \<times> mockDest" where
  "mock_Delete key m =
     (None, m\<lparr>deleteCalls := deleteCalls m @ [key], objects := AList.delete key (objects m)\<rparr>)"

definition mock_Destination :: "mockDest Destination" where
  "mock_Destination =
     \<lparr>Dst_Put = mock_Put, Dst_Stat = mock_Stat, Dst_List = mock_List, Dst_Delete = mock_Delete\<rparr>"

subsection \<open>An in-memory S3 service\<close>

text \<open>
  The service behind the client, for one bucket (the bucket name is not looked at): a
  list with one object per key. \<open>HeadObject\<close> of a missing key fails with an operation
  error that wraps a response error with status 404; the content length of an object is
  the number of bytes uploaded; metadata is returned as stored. \<open>ListObjectsV2\<close> yields
  one page with the keys that have the prefix, in the order of the list. No call fails
  for any other reason.
\<close>

record S3Object =
  obj_Body :: string
  obj_StorageClass :: string
  obj_Metadata :: "(string \<times> string) list"

definition mem_HeadObject :: "string \<Rightarrow> string \<Rightarrow> (string \<times> S3Object) list \<Rightarrow> (error + HeadObjectOutput) \<times> (string \<times> S3Object) list" where
  "mem_HeadObject b key objs =
     (case map_of objs key of
        None \<Rightarrow> (Inl (Errorf ''operation error S3: HeadObject'' (ResponseError 404)), objs)
      | Some ob \<Rightarrow>
          (Inr \<lparr>ContentLength = Some (of_nat (length (obj_Body ob))), Metadata = obj_Metadata ob\<rparr>, objs))"

definition mem_Upload :: "PutObjectInput \<Rightarrow> (string \<times> S3Object) list \<Rightarrow> error option \<times> (string \<times> S3Object) list" where
  "mem_Upload inp objs =
     (None, AList.update (in_Key inp)
        \<lparr>obj_Body = in_Body inp, obj_StorageClass = in_StorageClass inp, obj_Metadata = in_Metadata inp\<rparr> objs)"

definition mem_ListObjectsV2 :: "string \<Rightarrow> string \<Rightarrow> (string \<times> S3Object) list \<Rightarrow> (error + string list) list \<times> (string \<times> S3Object) list" where
  "mem_ListObjectsV2 b pfx objs = ([Inr (filter (\<lambda>k. HasPrefix k pfx) (map fst objs))], objs)"

definition mem_DeleteObject :: "string \<Rightarrow> string \<Rightarrow> (string \<times> S3Object) list \<Rightarrow> error option \<times> (string \<times> S3Object) list" where
  "mem_DeleteObject b key objs = (None, AList.delete key objs)"

definition mem_S3 :: "(string \<times> S3Object) list S3Client" where
  "mem_S3 =
     \<lparr>HeadObject = mem_HeadObject, Upload = mem_Upload,
      ListObjectsV2 = mem_ListObjectsV2, DeleteObject = mem_DeleteObject\<rparr>"

text \<open>The same service for a caller that may read but not write: every upload is denied.\<close>

definition readonly_S3 :: "(string \<times> S3Object) list S3Client" where
  "readonly_S3 =
     mem_S3\<lparr>Upload := (\<lambda>inp objs. (Some (Errorf ''operation error S3: PutObject'' (ResponseError 403)), objs))\<rparr>"

text \<open>A service that denies \<open>HeadObject\<close> to the caller (status 403).\<close>

definition forbidden_S3 :: "(string \<times> S3Object) list S3Client" where
  "forbidden_S3 =
     mem_S3\<lparr>HeadObject := (\<lambda>b key objs. (Inl (Errorf ''operation error S3: HeadObject'' (ResponseError 403)), objs))\<rparr>"

subsection \<open>Notions used in the statements and proofs\<close>

text \<open>The calls of the upload phase, of the mirror phase, and the calls that write.\<close>

fun is_upload_call :: "call \<Rightarrow> bool" where
  "is_upload_call (StatCall k) = True"
| "is_upload_call (PutCall k f sz t) = True"
| "is_upload_call _ = False"

fun is_mirror_call :: "call \<Rightarrow> bool" where
  "is_mirror_call ListCall = True"
| "is_mirror_call (DeleteCall k) = True"
| "is_mirror_call _ = False"


text \<open>
  The test \<open>deleteExtras\<close> makes for a listed key: \<open>os.Stat\<close> of the local path of the key
  fails with an error for which \<open>os.IsNotExist\<close> holds.
\<close>

definition locally_absent :: "host \<Rightarrow> 's Options \<Rightarrow> string \<Rightarrow> bool" where
  "locally_absent h opts key =
     os_IsNotExist
       (case os_Stat h (filepath_Join h (Src opts) (filepath_FromSlash h key)) of
          Inl err \<Rightarrow> Some err
        | Inr info \<Rightarrow> None)"







subsection \<open>A small source tree for the examples\<close>

text \<open>
  A Unix host: \<open>ToSlash\<close> and \<open>FromSlash\<close> change nothing, \<open>Join\<close> puts a slash between
  two clean paths, \<open>Rel\<close> strips the base from a path below it. The host is given by
  the results of \<open>os.Stat\<close> (a path not listed does not exist), the contents of its files
  and the visits of a walk of \<open>src\<close>.
\<close>

definition unix_Rel :: "string \<Rightarrow> string \<Rightarrow> error + string" where
  "unix_Rel base path =
     (if path = base then Inr ''.''
      else if HasPrefix path (base @ ''/'') then Inr (drop (length base + 1) path)
      else Inl (ErrOther ''Rel: can't make relative''))"

definition unix_Join :: "string \<Rightarrow> string \<Rightarrow> string" where
  "unix_Join a b = a @ ''/'' @ b"

definition example_host :: "(string \<times> (error + FileInfo)) list \<Rightarrow> (string \<times> string) list \<Rightarrow> visit list \<Rightarrow> host" where
  "example_host stats files visits =
     \<lparr>os_Stat = (\<lambda>p. case map_of stats p of None \<Rightarrow> Inl ErrNotExist | Some r \<Rightarrow> r),
      os_Open = (\<lambda>p. case map_of files p of None \<Rightarrow> Inl ErrNotExist | Some c \<Rightarrow> Inr c),
      WalkDir_visits = (\<lambda>root. if root = ''src'' then visits else [VisitErr root ErrNotExist]),
      filepath_Rel = unix_Rel,
      filepath_ToSlash = (\<lambda>p. p),
      filepath_FromSlash = (\<lambda>p. p),
      filepath_Join = unix_Join\<rparr>"

definition entry_of :: "FileInfo \<Rightarrow> DirEntry" where
  "entry_of info = \<lparr>IsDir = fi_IsDir info, Info = Inr info\<rparr>"

definition dir_info :: FileInfo where
  "dir_info = \<lparr>fi_Size = 4096, fi_ModTime = \<lparr>unix_sec = 50, nsec = 0\<rparr>, fi_IsDir = True\<rparr>"

definition info_a :: FileInfo where
  "info_a = \<lparr>fi_Size = 5, fi_ModTime = \<lparr>unix_sec = 100, nsec = 700\<rparr>, fi_IsDir = False\<rparr>"

definition info_b :: FileInfo where
  "info_b = \<lparr>fi_Size = 5, fi_ModTime = \<lparr>unix_sec = 200, nsec = 0\<rparr>, fi_IsDir = False\<rparr>"

text \<open>
  The tree \<open>src\<close> holds the files \<open>a.txt\<close> and \<open>b.txt\<close> (five bytes each) and an empty
  directory \<open>locked\<close> that may be read but not searched: \<open>os.Stat\<close> of a path below it
  fails with "permission denied", and of a path below the file \<open>a.txt\<close> with "not a
  directory".
\<close>

definition host1 :: host where
  "host1 = example_host
     [(''src'', Inr dir_info), (''src/a.txt'', Inr info_a), (''src/b.txt'', Inr info_b),
      (''src/locked'', Inr dir_info), (''src/locked/x.txt'', Inl ErrPermission),
      (''src/a.txt/old'', Inl ErrNotDir)]
     [(''src/a.txt'', ''hello''), (''src/b.txt'', ''world'')]
     [VisitEntry ''src'' (entry_of dir_info), VisitEntry ''src/a.txt'' (entry_of info_a),
      VisitEntry ''src/b.txt'' (entry_of info_b), VisitEntry ''src/locked'' (entry_of dir_info)]"

text \<open>
  A tree with one file whose modification time lies in the first second of year 1 (the
  second of the zero \<open>time.Time\<close>).
\<close>

definition info_old :: FileInfo where
  "info_old = \<lparr>fi_Size = 5, fi_ModTime = \<lparr>unix_sec = word_of_int (- 62135596800), nsec = 300\<rparr>, fi_IsDir = False\<rparr>"

definition host2 :: host where
  "host2 = example_host
     [(''src'', Inr dir_info), (''src/old.txt'', Inr info_old)]
     [(''src/old.txt'', ''hello'')]
     [VisitEntry ''src'' (entry_of dir_info), VisitEntry ''src/old.txt'' (entry_of info_old)]"

text \<open>
  A tree with a symbolic link \<open>l.txt\<close> to a file of five bytes outside the tree. The walk
  does not follow links: the entry it reports is the link itself, not a directory, and its
  \<open>Info\<close> is that of the link, whose size is the length of the target path (seven bytes
  for \<open>/data/f\<close>). \<open>os.Open\<close> and \<open>os.Stat\<close> follow the link to the file.
\<close>

definition info_link :: FileInfo where
  "info_link = \<lparr>fi_Size = 7, fi_ModTime = \<lparr>unix_sec = 300, nsec = 0\<rparr>, fi_IsDir = False\<rparr>"



text \<open>
  A tree with a dangling symbolic link \<open>dangling\<close>, whose target does not exist. The walk
  reports the link; \<open>os.Stat\<close> and \<open>os.Open\<close>, which follow it, fail with "not exist".
\<close>

definition host4 :: host where
  "host4 = example_host
     [(''src'', Inr dir_info)]
     []
     [VisitEntry ''src'' (entry_of dir_info), VisitEntry ''src/dangling'' (entry_of info_link)]"

definition mock_opts :: "string \<Rightarrow> bool \<Rightarrow> bool \<Rightarrow> mockDest Options" where
  "mock_opts src dry del = \<lparr>Src = src, Dst = mock_Destination, DryRun = dry, Delete = del\<rparr>"

definition mock_run :: "(string \<times> ObjectMeta) list \<Rightarrow> mockDest run" where
  "mock_run objs = \<lparr>dst = newMockDest\<lparr>objects := objs\<rparr>, printed = [], calls = []\<rparr>"

definition s3_opts :: "(string \<times> S3Object) list S3Client \<Rightarrow> string \<Rightarrow> string \<Rightarrow> bool \<Rightarrow> bool \<Rightarrow> (string \<times> S3Object) list Options" where
  "s3_opts cl pfx src dry del =
     \<lparr>Src = src,
      Dst = S3_Destination \<lparr>client = cl, bucket = ''my-backup-bucket'', prefix = pfx, storageClass = ''GLACIER_IR''\<rparr>,
      DryRun = dry, Delete = del\<rparr>"

definition s3_run :: "(string \<times> S3Object) list \<Rightarrow> (string \<times> S3Object) list run" where
  "s3_run objs = \<lparr>dst = objs, printed = [], calls = []\<rparr>"

section \<open>Properties\<close>

subsection \<open>Key Mapper\<close>

lemma TrimPrefix_append: "TrimPrefix (p @ s) p = s"
  by (simp add: TrimPrefix_def HasPrefix_def)

lemma TrimPrefix_no_slash: "\<not> HasPrefix k ''/'' \<Longrightarrow> TrimPrefix k ''/'' = k"
  by (simp add: TrimPrefix_def)

lemma relKey_fullKey: "\<not> HasPrefix k ''/'' \<Longrightarrow> relKey pfx (fullKey pfx k) = k"
proof -
  assume k: "\<not> HasPrefix k ''/''"
  show ?thesis
  proof (cases "pfx = []")
    case True
    with k show ?thesis by (simp add: relKey_def fullKey_def TrimPrefix_no_slash)
  next
    case False
    have "TrimPrefix ((TrimSuffix pfx ''/'' @ ''/'') @ k) (TrimSuffix pfx ''/'' @ ''/'') = k"
      by (rule TrimPrefix_append)
    with False k show ?thesis by (simp add: relKey_def fullKey_def TrimPrefix_no_slash)
  qed
qed

text \<open>
  C3. For every prefix and every relative key \<open>k\<close> that does not begin with a slash,
  \<open>relKey\<close> undoes \<open>fullKey\<close>: \<open>relKey prefix (fullKey prefix k) = k\<close>.
\<close>

theorem relKey_fullKey_roundtrip:
  assumes "\<not> HasPrefix k ''/''"
  shows "relKey pfx (fullKey pfx k) = k"
  using assms by (rule relKey_fullKey)

text \<open>
  The cases of the package's round-trip test: the prefixes \<open>""\<close>, \<open>"backups"\<close> and
  \<open>"backups/"\<close> with the keys \<open>"foo.txt"\<close> and \<open>"a/b/c.txt"\<close>.
\<close>

theorem relKey_fullKey_roundtrip_witness:
  "\<not> HasPrefix ''foo.txt'' ''/'' \<and> \<not> HasPrefix ''a/b/c.txt'' ''/''
   \<and> relKey '''' (fullKey '''' ''foo.txt'') = ''foo.txt''
   \<and> relKey '''' (fullKey '''' ''a/b/c.txt'') = ''a/b/c.txt''
   \<and> relKey ''backups'' (fullKey ''backups'' ''foo.txt'') = ''foo.txt''
   \<and> relKey ''backups'' (fullKey ''backups'' ''a/b/c.txt'') = ''a/b/c.txt''
   \<and> relKey ''backups/'' (fullKey ''backups/'' ''foo.txt'') = ''foo.txt''
   \<and> relKey ''backups/'' (fullKey ''backups/'' ''a/b/c.txt'') = ''a/b/c.txt''
   \<and> fullKey ''backups/'' ''a/b/c.txt'' = ''backups/a/b/c.txt''"
proof -
  have a: "\<not> HasPrefix ''foo.txt'' ''/''" and b: "\<not> HasPrefix ''a/b/c.txt'' ''/''"
    by (simp_all add: HasPrefix_def)
  have c: "fullKey ''backups/'' ''a/b/c.txt'' = ''backups/a/b/c.txt''"
    by (simp add: fullKey_def TrimPrefix_def TrimSuffix_def HasPrefix_def HasSuffix_def)
  show ?thesis
    using a b c
      relKey_fullKey_roundtrip [OF a, of "''''"] relKey_fullKey_roundtrip [OF b, of "''''"]
      relKey_fullKey_roundtrip [OF a, of "''backups''"] relKey_fullKey_roundtrip [OF b, of "''backups''"]
      relKey_fullKey_roundtrip [OF a, of "''backups/''"] relKey_fullKey_roundtrip [OF b, of "''backups/''"]
    by simp
qed

subsection \<open>Steps of the two loops\<close>

lemmas ex_defs = host1_def example_host_def entry_of_def dir_info_def info_a_def info_b_def
  mock_opts_def mock_run_def newMockDest_def mock_Destination_def mock_Stat_def mock_Put_def
  mock_List_def mock_Delete_def unix_Rel_def unix_Join_def HasPrefix_def

lemmas eval_defs = ex_defs host2_def info_old_def s3_opts_def s3_run_def S3_Destination_def
  S3_Stat_def S3_Put_def S3_List_def S3_Delete_def mem_S3_def mem_HeadObject_def mem_Upload_def
  mem_ListObjectsV2_def mem_DeleteObject_def readonly_S3_def forbidden_S3_def
  fullKey_def relKey_def TrimPrefix_def TrimSuffix_def HasSuffix_def aws_ToInt64_def
  StatusNotFound_def zero_Time_def time_Unix_def Truncate_def Equal_def Unix_def
  syncFiles_fn_def syncFiles_def filepath_WalkDir_def deleteExtras_def validateSrc_def Sync_def
  deleteExtras_loop.simps locally_absent_def Let_def

lemma Equal_iff: "Equal (t::Time) u = (t = u)"
  by (cases t, cases u) (auto simp: Equal_def)

text \<open>
  The engine's function on a file whose relative path and file information are
  available and whose \<open>Stat\<close> succeeds.
\<close>

lemma syncFiles_fn_file:
  assumes "\<not> IsDir d" "filepath_Rel h (Src opts) path = Inr rel0" "Info d = Inr info"
    "Dst_Stat (Dst opts) (filepath_ToSlash h rel0) (dst st) = (Inr meta, s1)"
  shows "syncFiles_fn h opts (VisitEntry path d) st =
     (let rel = filepath_ToSlash h rel0;
          st1 = st\<lparr>dst := s1, calls := calls st @ [StatCall rel]\<rparr> in
      if (\<exists>m. meta = Some m \<and> ModTime m = Truncate (fi_ModTime info) 1000000000 \<and> Size m = fi_Size info)
      then (None, st1)
      else let st2 = st1\<lparr>printed := printed st @ [ActUpload rel]\<rparr> in
         if DryRun opts then (None, st2)
         else (case os_Open h path of Inl err \<Rightarrow> (Some err, st2)
               | Inr f \<Rightarrow> (case Dst_Put (Dst opts) rel f (fi_Size info) (fi_ModTime info) s1 of
                    (perr, s3) \<Rightarrow> (perr, st2\<lparr>dst := s3, calls := calls st @ [StatCall rel, PutCall rel f (fi_Size info) (fi_ModTime info)]\<rparr>))))"
  using assms
  by (auto simp: syncFiles_fn_def Let_def Equal_iff split: option.splits sum.splits prod.splits)

lemma syncFiles_fn_stat_error:
  assumes "\<not> IsDir d" "filepath_Rel h (Src opts) path = Inr rel0" "Info d = Inr info"
    "Dst_Stat (Dst opts) (filepath_ToSlash h rel0) (dst st) = (Inl err, s1)"
  shows "syncFiles_fn h opts (VisitEntry path d) st =
     (Some (Errorf (''stat '' @ filepath_ToSlash h rel0) err),
      st\<lparr>dst := s1, calls := calls st @ [StatCall (filepath_ToSlash h rel0)]\<rparr>)"
  using assms by (simp add: syncFiles_fn_def Let_def)

lemma walk_append:
  "walk fn (xs @ ys) st =
     (case walk fn xs st of (Some e, st') \<Rightarrow> (Some e, st') | (None, st') \<Rightarrow> walk fn ys st')"
  by (induction xs arbitrary: st) (auto split: prod.splits option.splits)

lemma syncFiles_fn_calls:
  "\<exists>us. calls (snd (syncFiles_fn h opts v st)) = calls st @ us \<and> list_all is_upload_call us"
  by (cases v) (auto simp: syncFiles_fn_def Let_def split: sum.splits prod.splits option.splits)

lemma walk_calls:
  assumes "\<And>v st. \<exists>us. calls (snd (fn v st)) = calls st @ us \<and> list_all P us"
  shows "\<exists>us. calls (snd (walk fn vs st)) = calls st @ us \<and> list_all P us"
proof (induction vs arbitrary: st)
  case Nil
  show ?case by simp
next
  case (Cons v vs)
  obtain r st' where f: "fn v st = (r, st')" by (cases "fn v st")
  from assms [of v st] f obtain us where us: "calls st' = calls st @ us" "list_all P us" by auto
  show ?case
  proof (cases r)
    case None
    from Cons.IH [of st'] obtain us' where "calls (snd (walk fn vs st')) = calls st' @ us'" "list_all P us'"
      by auto
    with us None f show ?thesis by (intro exI [of _ "us @ us'"]) simp
  next
    case (Some e)
    with us f show ?thesis by (intro exI [of _ us]) simp
  qed
qed

lemma syncFiles_calls:
  "\<exists>us. calls (snd (syncFiles h opts st)) = calls st @ us \<and> list_all is_upload_call us"
  unfolding syncFiles_def filepath_WalkDir_def by (rule walk_calls) (rule syncFiles_fn_calls)

lemma deleteExtras_loop_skip:
  "\<not> locally_absent h opts key \<Longrightarrow>
   deleteExtras_loop h opts (key # keys) st = deleteExtras_loop h opts keys st"
  by (simp add: locally_absent_def Let_def)

lemma deleteExtras_loop_dry:
  "locally_absent h opts key \<Longrightarrow> DryRun opts \<Longrightarrow>
   deleteExtras_loop h opts (key # keys) st
     = deleteExtras_loop h opts keys (st\<lparr>printed := printed st @ [ActDelete key]\<rparr>)"
  by (simp add: locally_absent_def Let_def)

lemma deleteExtras_loop_live:
  "locally_absent h opts key \<Longrightarrow> \<not> DryRun opts \<Longrightarrow> Dst_Delete (Dst opts) key (dst st) = (None, s2) \<Longrightarrow>
   deleteExtras_loop h opts (key # keys) st
     = deleteExtras_loop h opts keys
         (st\<lparr>printed := printed st @ [ActDelete key], dst := s2, calls := calls st @ [DeleteCall key]\<rparr>)"
  by (simp add: locally_absent_def Let_def)

lemma deleteExtras_loop_fail:
  "locally_absent h opts key \<Longrightarrow> \<not> DryRun opts \<Longrightarrow> Dst_Delete (Dst opts) key (dst st) = (Some e, s2) \<Longrightarrow>
   deleteExtras_loop h opts (key # keys) st
     = (Some (Errorf (''delete '' @ key) e),
        st\<lparr>printed := printed st @ [ActDelete key], dst := s2, calls := calls st @ [DeleteCall key]\<rparr>)"
  by (simp add: locally_absent_def Let_def)

declare deleteExtras_loop.simps(2) [simp del]

lemma deleteExtras_loop_calls:
  "\<exists>ms. calls (snd (deleteExtras_loop h opts keys st)) = calls st @ ms \<and> list_all is_mirror_call ms"
proof (induction keys arbitrary: st)
  case Nil
  show ?case by simp
next
  case (Cons key keys)
  show ?case
  proof (cases "locally_absent h opts key")
    case False
    then show ?thesis using Cons.IH [of st] by (simp add: deleteExtras_loop_skip)
  next
    case True
    show ?thesis
    proof (cases "DryRun opts")
      case dry: True
      from Cons.IH [of "st\<lparr>printed := printed st @ [ActDelete key]\<rparr>"] True dry
      show ?thesis by (simp add: deleteExtras_loop_dry)
    next
      case live: False
      obtain derr s2 where d: "Dst_Delete (Dst opts) key (dst st) = (derr, s2)"
        by (cases "Dst_Delete (Dst opts) key (dst st)")
      show ?thesis
      proof (cases derr)
        case None
        from Cons.IH [of "st\<lparr>printed := printed st @ [ActDelete key], dst := s2, calls := calls st @ [DeleteCall key]\<rparr>"]
        obtain ms where "calls (snd (deleteExtras_loop h opts keys
            (st\<lparr>printed := printed st @ [ActDelete key], dst := s2, calls := calls st @ [DeleteCall key]\<rparr>)))
          = (calls st @ [DeleteCall key]) @ ms" "list_all is_mirror_call ms" by auto
        with True live d None show ?thesis
          by (intro exI [of _ "DeleteCall key # ms"]) (simp add: deleteExtras_loop_live)
      next
        case (Some e)
        with True live d show ?thesis
          by (intro exI [of _ "[DeleteCall key]"]) (simp add: deleteExtras_loop_fail)
      qed
    qed
  qed
qed

lemma deleteExtras_calls:
  "\<exists>ms. calls (snd (deleteExtras h opts st)) = calls st @ ListCall # ms \<and> list_all is_mirror_call ms"
proof -
  obtain res s1 where l: "Dst_List (Dst opts) (dst st) = (res, s1)"
    by (cases "Dst_List (Dst opts) (dst st)")
  show ?thesis
  proof (cases res)
    case (Inl e)
    with l show ?thesis by (simp add: deleteExtras_def Let_def)
  next
    case (Inr keys)
    from deleteExtras_loop_calls [of h opts keys "st\<lparr>dst := s1, calls := calls st @ [ListCall]\<rparr>"]
    obtain ms where "calls (snd (deleteExtras_loop h opts keys (st\<lparr>dst := s1, calls := calls st @ [ListCall]\<rparr>)))
       = (calls st @ [ListCall]) @ ms" "list_all is_mirror_call ms" by auto
    with l Inr show ?thesis by (intro exI [of _ ms]) (simp add: deleteExtras_def Let_def)
  qed
qed

lemma deleteExtras_loop_printed:
  "\<exists>ks. printed (snd (deleteExtras_loop h opts keys st)) = printed st @ map ActDelete ks
        \<and> set ks \<subseteq> {k \<in> set keys. locally_absent h opts k}
        \<and> (\<forall>k. DeleteCall k \<in> set (calls (snd (deleteExtras_loop h opts keys st)))
               \<longrightarrow> DeleteCall k \<in> set (calls st) \<or> k \<in> set ks)"
proof (induction keys arbitrary: st)
  case Nil
  show ?case by simp
next
  case (Cons key keys)
  show ?case
  proof (cases "locally_absent h opts key")
    case False
    from Cons.IH [of st] obtain ks where
      "printed (snd (deleteExtras_loop h opts keys st)) = printed st @ map ActDelete ks"
      "set ks \<subseteq> {k \<in> set keys. locally_absent h opts k}"
      "\<forall>k. DeleteCall k \<in> set (calls (snd (deleteExtras_loop h opts keys st)))
               \<longrightarrow> DeleteCall k \<in> set (calls st) \<or> k \<in> set ks" by blast
    with False show ?thesis
      by (intro exI [of _ ks]) (auto simp: deleteExtras_loop_skip)
  next
    case True
    show ?thesis
    proof (cases "DryRun opts")
      case dry: True
      let ?st1 = "st\<lparr>printed := printed st @ [ActDelete key]\<rparr>"
      from Cons.IH [of ?st1] obtain ks where
        "printed (snd (deleteExtras_loop h opts keys ?st1)) = printed ?st1 @ map ActDelete ks"
        "set ks \<subseteq> {k \<in> set keys. locally_absent h opts k}"
        "\<forall>k. DeleteCall k \<in> set (calls (snd (deleteExtras_loop h opts keys ?st1)))
               \<longrightarrow> DeleteCall k \<in> set (calls ?st1) \<or> k \<in> set ks" by blast
      with True dry show ?thesis
        by (intro exI [of _ "key # ks"]) (auto simp: deleteExtras_loop_dry)
    next
      case live: False
      obtain derr s2 where d: "Dst_Delete (Dst opts) key (dst st) = (derr, s2)"
        by (cases "Dst_Delete (Dst opts) key (dst st)")
      let ?st2 = "st\<lparr>printed := printed st @ [ActDelete key], dst := s2, calls := calls st @ [DeleteCall key]\<rparr>"
      show ?thesis
      proof (cases derr)
        case None
        from Cons.IH [of ?st2] obtain ks where
          "printed (snd (deleteExtras_loop h opts keys ?st2)) = printed ?st2 @ map ActDelete ks"
          "set ks \<subseteq> {k \<in> set keys. locally_absent h opts k}"
          "\<forall>k. DeleteCall k \<in> set (calls (snd (deleteExtras_loop h opts keys ?st2)))
               \<longrightarrow> DeleteCall k \<in> set (calls ?st2) \<or> k \<in> set ks" by blast
        with True live d None show ?thesis
          by (intro exI [of _ "key # ks"]) (auto simp: deleteExtras_loop_live)
      next
        case (Some e)
        with True live d show ?thesis
          by (intro exI [of _ "[key]"]) (auto simp: deleteExtras_loop_fail)
      qed
    qed
  qed
qed

lemma deleteExtras_printed:
  "\<exists>ks. printed (snd (deleteExtras h opts st)) = printed st @ map ActDelete ks
        \<and> (\<forall>k \<in> set ks. locally_absent h opts k)
        \<and> (\<forall>k. DeleteCall k \<in> set (calls (snd (deleteExtras h opts st)))
               \<longrightarrow> DeleteCall k \<in> set (calls st) \<or> k \<in> set ks)"
proof -
  obtain res s1 where l: "Dst_List (Dst opts) (dst st) = (res, s1)"
    by (cases "Dst_List (Dst opts) (dst st)")
  show ?thesis
  proof (cases res)
    case (Inl e)
    with l show ?thesis by (intro exI [of _ "[]"]) (simp add: deleteExtras_def Let_def)
  next
    case (Inr keys)
    let ?st1 = "st\<lparr>dst := s1, calls := calls st @ [ListCall]\<rparr>"
    from deleteExtras_loop_printed [of h opts keys ?st1] obtain ks where
      "printed (snd (deleteExtras_loop h opts keys ?st1)) = printed ?st1 @ map ActDelete ks"
      "set ks \<subseteq> {k \<in> set keys. locally_absent h opts k}"
      "\<forall>k. DeleteCall k \<in> set (calls (snd (deleteExtras_loop h opts keys ?st1)))
               \<longrightarrow> DeleteCall k \<in> set (calls ?st1) \<or> k \<in> set ks" by blast
    with l Inr show ?thesis
      by (intro exI [of _ ks]) (auto simp: deleteExtras_def Let_def)
  qed
qed

lemma deleteExtras_loop_error:
  "deleteExtras_loop h opts keys st = (Some e, st') \<Longrightarrow>
     \<exists>key e0. key \<in> set keys \<and> locally_absent h opts key \<and> \<not> DryRun opts \<and> e = Errorf (''delete '' @ key) e0"
proof (induction keys arbitrary: st)
  case Nil
  then show ?case by simp
next
  case (Cons key keys)
  show ?case
  proof (cases "locally_absent h opts key")
    case False
    with Cons.prems have "deleteExtras_loop h opts keys st = (Some e, st')"
      by (simp add: deleteExtras_loop_skip)
    from Cons.IH [OF this] show ?thesis by auto
  next
    case True
    show ?thesis
    proof (cases "DryRun opts")
      case dry: True
      with True Cons.prems have "deleteExtras_loop h opts keys (st\<lparr>printed := printed st @ [ActDelete key]\<rparr>) = (Some e, st')"
        by (simp add: deleteExtras_loop_dry)
      from Cons.IH [OF this] show ?thesis by auto
    next
      case live: False
      obtain derr s2 where d: "Dst_Delete (Dst opts) key (dst st) = (derr, s2)"
        by (cases "Dst_Delete (Dst opts) key (dst st)")
      show ?thesis
      proof (cases derr)
        case None
        with True live d Cons.prems have "deleteExtras_loop h opts keys
           (st\<lparr>printed := printed st @ [ActDelete key], dst := s2, calls := calls st @ [DeleteCall key]\<rparr>) = (Some e, st')"
          by (simp add: deleteExtras_loop_live)
        from Cons.IH [OF this] show ?thesis by auto
      next
        case (Some e1)
        with True live d Cons.prems show ?thesis
          by (auto simp: deleteExtras_loop_fail)
      qed
    qed
  qed
qed

subsection \<open>Diff Engine: classification of a file\<close>

text \<open>
  C1, as the engine does it. For a file of the walk whose \<open>Stat\<close> succeeds with \<open>meta\<close>:
  the file is up to date (no line is printed, \<open>Put\<close> is not called) if and only if an
  object exists, its stored size is the file's size, and its stored modification time,
  as \<open>Stat\<close> returned it, is the file's modification time truncated to whole seconds;
  otherwise the line \<open>upload rel\<close> is printed. The stored time is not truncated by the
  engine; when it is a whole second, comparing it is the same as comparing its
  truncation.
\<close>

theorem syncFiles_fn_classifies:
  assumes "\<not> IsDir d" and "filepath_Rel h (Src opts) path = Inr rel0" and "Info d = Inr info"
    and "Dst_Stat (Dst opts) (filepath_ToSlash h rel0) (dst st) = (Inr meta, s1)"
  shows "((\<exists>m. meta = Some m \<and> Size m = fi_Size info
              \<and> ModTime m = Truncate (fi_ModTime info) 1000000000)
          \<longrightarrow> syncFiles_fn h opts (VisitEntry path d) st
                = (None, st\<lparr>dst := s1, calls := calls st @ [StatCall (filepath_ToSlash h rel0)]\<rparr>))
       \<and> (\<not> (\<exists>m. meta = Some m \<and> Size m = fi_Size info
              \<and> ModTime m = Truncate (fi_ModTime info) 1000000000)
          \<longrightarrow> printed (snd (syncFiles_fn h opts (VisitEntry path d) st))
                = printed st @ [ActUpload (filepath_ToSlash h rel0)])
       \<and> (\<forall>m. meta = Some m \<and> nsec (ModTime m) = 0 \<longrightarrow>
            (ModTime m = Truncate (fi_ModTime info) 1000000000
             \<longleftrightarrow> Truncate (ModTime m) 1000000000 = Truncate (fi_ModTime info) 1000000000))"
proof (intro conjI impI allI)
  assume "\<exists>m. meta = Some m \<and> Size m = fi_Size info \<and> ModTime m = Truncate (fi_ModTime info) 1000000000"
  then show "syncFiles_fn h opts (VisitEntry path d) st
      = (None, st\<lparr>dst := s1, calls := calls st @ [StatCall (filepath_ToSlash h rel0)]\<rparr>)"
    by (auto simp: syncFiles_fn_file [OF assms] Let_def)
next
  assume "\<not> (\<exists>m. meta = Some m \<and> Size m = fi_Size info \<and> ModTime m = Truncate (fi_ModTime info) 1000000000)"
  then show "printed (snd (syncFiles_fn h opts (VisitEntry path d) st))
      = printed st @ [ActUpload (filepath_ToSlash h rel0)]"
    by (auto simp: syncFiles_fn_file [OF assms] Let_def split: sum.splits prod.splits)
next
  fix m assume "meta = Some m \<and> nsec (ModTime m) = 0"
  then have "Truncate (ModTime m) 1000000000 = ModTime m"
    by (cases "ModTime m") (simp add: Truncate_def)
  then show "(ModTime m = Truncate (fi_ModTime info) 1000000000)
     = (Truncate (ModTime m) 1000000000 = Truncate (fi_ModTime info) 1000000000)"
    by simp
qed

text \<open>
  A file that is up to date against the mock destination, and a file whose stored size
  differs.
\<close>

theorem syncFiles_fn_classifies_witness:
  "syncFiles_fn host1 (mock_opts ''src'' False False) (VisitEntry ''src/a.txt'' (entry_of info_a))
      (mock_run [(''a.txt'', \<lparr>Size = 5, ModTime = \<lparr>unix_sec = 100, nsec = 0\<rparr>\<rparr>)])
     = (None, \<lparr>dst = newMockDest\<lparr>objects := [(''a.txt'', \<lparr>Size = 5, ModTime = \<lparr>unix_sec = 100, nsec = 0\<rparr>\<rparr>)]\<rparr>,
               printed = [], calls = [StatCall ''a.txt'']\<rparr>)
   \<and> printed (snd (syncFiles_fn host1 (mock_opts ''src'' False False) (VisitEntry ''src/b.txt'' (entry_of info_b))
      (mock_run [(''b.txt'', \<lparr>Size = 6, ModTime = \<lparr>unix_sec = 200, nsec = 0\<rparr>\<rparr>)])))
     = [ActUpload ''b.txt'']"
proof -
  have a: "\<not> IsDir (entry_of info_a)" "\<not> IsDir (entry_of info_b)"
    "filepath_Rel host1 (Src (mock_opts ''src'' False False)) ''src/a.txt'' = Inr ''a.txt''"
    "filepath_Rel host1 (Src (mock_opts ''src'' False False)) ''src/b.txt'' = Inr ''b.txt''"
    "Info (entry_of info_a) = Inr info_a" "Info (entry_of info_b) = Inr info_b"
    by (simp_all add: eval_defs)
  have s: "Dst_Stat (Dst (mock_opts ''src'' False False)) (filepath_ToSlash host1 ''a.txt'')
        (dst (mock_run [(''a.txt'', \<lparr>Size = 5, ModTime = \<lparr>unix_sec = 100, nsec = 0\<rparr>\<rparr>)]))
      = (Inr (Some \<lparr>Size = 5, ModTime = \<lparr>unix_sec = 100, nsec = 0\<rparr>\<rparr>),
         newMockDest\<lparr>objects := [(''a.txt'', \<lparr>Size = 5, ModTime = \<lparr>unix_sec = 100, nsec = 0\<rparr>\<rparr>)]\<rparr>)"
    "Dst_Stat (Dst (mock_opts ''src'' False False)) (filepath_ToSlash host1 ''b.txt'')
        (dst (mock_run [(''b.txt'', \<lparr>Size = 6, ModTime = \<lparr>unix_sec = 200, nsec = 0\<rparr>\<rparr>)]))
      = (Inr (Some \<lparr>Size = 6, ModTime = \<lparr>unix_sec = 200, nsec = 0\<rparr>\<rparr>),
         newMockDest\<lparr>objects := [(''b.txt'', \<lparr>Size = 6, ModTime = \<lparr>unix_sec = 200, nsec = 0\<rparr>\<rparr>)]\<rparr>)"
    by (simp_all add: eval_defs)
  from syncFiles_fn_classifies [OF a(1) a(3) a(5) s(1)] syncFiles_fn_classifies [OF a(2) a(4) a(6) s(2)]
  show ?thesis by (simp add: eval_defs)
qed

text \<open>
  C1 as stated fails when the destination returns a modification time with a
  sub-second part: the object exists, the sizes are equal (5 bytes) and both times
  truncate to second 100, yet the file is uploaded.
\<close>

theorem stored_time_not_truncated_counterexample:
  "map_of (objects (dst (mock_run [(''a.txt'', \<lparr>Size = 5, ModTime = \<lparr>unix_sec = 100, nsec = 500\<rparr>\<rparr>)]))) ''a.txt''
      = Some \<lparr>Size = 5, ModTime = \<lparr>unix_sec = 100, nsec = 500\<rparr>\<rparr>
   \<and> Size \<lparr>Size = 5, ModTime = \<lparr>unix_sec = 100, nsec = 500\<rparr>\<rparr> = fi_Size info_a
   \<and> Truncate (ModTime \<lparr>Size = 5, ModTime = \<lparr>unix_sec = 100, nsec = 500\<rparr>\<rparr>) 1000000000
       = Truncate (fi_ModTime info_a) 1000000000
   \<and> syncFiles_fn host1 (mock_opts ''src'' True False) (VisitEntry ''src/a.txt'' (entry_of info_a))
        (mock_run [(''a.txt'', \<lparr>Size = 5, ModTime = \<lparr>unix_sec = 100, nsec = 500\<rparr>\<rparr>)])
      = (None, \<lparr>dst = newMockDest\<lparr>objects := [(''a.txt'', \<lparr>Size = 5, ModTime = \<lparr>unix_sec = 100, nsec = 500\<rparr>\<rparr>)]\<rparr>,
                 printed = [ActUpload ''a.txt''], calls = [StatCall ''a.txt'']\<rparr>)"
  by (simp add: ex_defs syncFiles_fn_def Truncate_def Equal_def Let_def)

subsection \<open>Sync Orchestrator\<close>

text \<open>
  C7. If \<open>os.Stat\<close> of the source path fails, or the path is not a directory, \<open>Sync\<close>
  returns an error and leaves the run as it was: nothing is printed and no method of
  the destination (stat, put, list, delete) has been called.
\<close>

theorem Sync_invalid_source:
  assumes "(\<exists>err. os_Stat h (Src opts) = Inl err)
           \<or> (\<exists>info. os_Stat h (Src opts) = Inr info \<and> \<not> fi_IsDir info)"
  shows "\<exists>err. Sync h opts st = (Some err, st)
               \<and> (err = ErrSourceNotDirectory (Src opts) \<or> (\<exists>e. err = Errorf ''source'' e))"
  using assms by (auto simp: Sync_def validateSrc_def)

text \<open>A source path that does not exist, and one that is a regular file.\<close>

theorem Sync_invalid_source_witness:
  "Sync host1 (mock_opts ''missing'' False True) (mock_run []) = (Some (Errorf ''source'' ErrNotExist), mock_run [])
   \<and> Sync host1 (mock_opts ''src/a.txt'' False True) (mock_run [])
       = (Some (ErrSourceNotDirectory ''src/a.txt''), mock_run [])"
proof -
  have a: "(\<exists>err. os_Stat host1 (Src (mock_opts ''missing'' False True)) = Inl err)
           \<or> (\<exists>info. os_Stat host1 (Src (mock_opts ''missing'' False True)) = Inr info \<and> \<not> fi_IsDir info)"
    by (simp add: eval_defs)
  have b: "(\<exists>err. os_Stat host1 (Src (mock_opts ''src/a.txt'' False True)) = Inl err)
           \<or> (\<exists>info. os_Stat host1 (Src (mock_opts ''src/a.txt'' False True)) = Inr info \<and> \<not> fi_IsDir info)"
    by (simp add: eval_defs)
  from Sync_invalid_source [OF a, of "mock_run []"] Sync_invalid_source [OF b, of "mock_run []"]
  show ?thesis by (simp add: eval_defs)
qed

text \<open>
  C6. \<open>Sync\<close> validates the source, then runs the upload phase, then the mirror phase
  if and only if validation and the upload phase returned no error and the delete flag
  is set; an error of validation or of the upload phase is the result of \<open>Sync\<close>. The
  calls a run makes on the destination are the calls of the upload phase (stat, put)
  followed by the calls of the mirror phase (a list call first, then delete calls).
\<close>

theorem Sync_phases_sequential:
  "(\<forall>err. validateSrc h (Src opts) = Some err \<longrightarrow> Sync h opts st = (Some err, st))
   \<and> (\<forall>err st1. validateSrc h (Src opts) = None \<and> syncFiles h opts st = (Some err, st1)
        \<longrightarrow> Sync h opts st = (Some err, st1))
   \<and> (\<forall>st1. validateSrc h (Src opts) = None \<and> syncFiles h opts st = (None, st1) \<and> \<not> Delete opts
        \<longrightarrow> Sync h opts st = (None, st1))
   \<and> (\<forall>st1. validateSrc h (Src opts) = None \<and> syncFiles h opts st = (None, st1) \<and> Delete opts
        \<longrightarrow> Sync h opts st = deleteExtras h opts st1)
   \<and> (\<exists>us ms. calls (snd (Sync h opts st)) = calls st @ us @ ms
        \<and> list_all is_upload_call us \<and> list_all is_mirror_call ms
        \<and> (ms \<noteq> [] \<longleftrightarrow> validateSrc h (Src opts) = None \<and> fst (syncFiles h opts st) = None \<and> Delete opts)
        \<and> (ms \<noteq> [] \<longrightarrow> hd ms = ListCall))"
proof (intro conjI allI impI)
  let ?ok = "validateSrc h (Src opts) = None \<and> fst (syncFiles h opts st) = None \<and> Delete opts"
  let ?P = "\<lambda>us ms. calls (snd (Sync h opts st)) = calls st @ us @ ms
        \<and> list_all is_upload_call us \<and> list_all is_mirror_call ms
        \<and> (ms \<noteq> [] \<longleftrightarrow> ?ok) \<and> (ms \<noteq> [] \<longrightarrow> hd ms = ListCall)"
  show "\<exists>us ms. ?P us ms"
  proof (cases "validateSrc h (Src opts)")
    case (Some e)
    then have "?P [] []" by (simp add: Sync_def)
    then show ?thesis by blast
  next
    case None
    obtain r st1 where s: "syncFiles h opts st = (r, st1)" by (cases "syncFiles h opts st")
    from syncFiles_calls [of h opts st] s obtain us where us: "calls st1 = calls st @ us" "list_all is_upload_call us"
      by auto
    show ?thesis
    proof (cases "r = None \<and> Delete opts")
      case False
      with None s us have "?P us []" by (auto simp: Sync_def split: option.splits)
      then show ?thesis by blast
    next
      case True
      from deleteExtras_calls [of h opts st1] obtain ms where
        "calls (snd (deleteExtras h opts st1)) = calls st1 @ ListCall # ms" "list_all is_mirror_call ms" by auto
      with None s us True have "?P us (ListCall # ms)" by (auto simp: Sync_def)
      then show ?thesis by blast
    qed
  qed
qed (simp_all add: Sync_def)

text \<open>
  A live run with the delete flag: two uploads, then the listing, then the deletion of
  the one key that is not in the tree.
\<close>

theorem Sync_phases_sequential_witness:
  "validateSrc host1 ''src'' = None
   \<and> Sync host1 (mock_opts ''src'' False True) (mock_run [(''extra.txt'', \<lparr>Size = 0, ModTime = zero_Time\<rparr>)])
      = deleteExtras host1 (mock_opts ''src'' False True)
          (snd (syncFiles host1 (mock_opts ''src'' False True) (mock_run [(''extra.txt'', \<lparr>Size = 0, ModTime = zero_Time\<rparr>)])))
   \<and> calls (snd (Sync host1 (mock_opts ''src'' False True) (mock_run [(''extra.txt'', \<lparr>Size = 0, ModTime = zero_Time\<rparr>)])))
      = [StatCall ''a.txt'', PutCall ''a.txt'' ''hello'' 5 \<lparr>unix_sec = 100, nsec = 700\<rparr>,
         StatCall ''b.txt'', PutCall ''b.txt'' ''world'' 5 \<lparr>unix_sec = 200, nsec = 0\<rparr>,
         ListCall, DeleteCall ''extra.txt'']
   \<and> Sync host1 (mock_opts ''src'' False True) (mock_run [(''extra.txt'', \<lparr>Size = 0, ModTime = zero_Time\<rparr>)])
      = (None, \<lparr>dst = \<lparr>objects = [(''a.txt'', \<lparr>Size = 5, ModTime = \<lparr>unix_sec = 100, nsec = 0\<rparr>\<rparr>),
                                  (''b.txt'', \<lparr>Size = 5, ModTime = \<lparr>unix_sec = 200, nsec = 0\<rparr>\<rparr>)],
                       putCalls = [''a.txt'', ''b.txt''], deleteCalls = [''extra.txt'']\<rparr>,
              printed = [ActUpload ''a.txt'', ActUpload ''b.txt'', ActDelete ''extra.txt''],
              calls = [StatCall ''a.txt'', PutCall ''a.txt'' ''hello'' 5 \<lparr>unix_sec = 100, nsec = 700\<rparr>,
                       StatCall ''b.txt'', PutCall ''b.txt'' ''world'' 5 \<lparr>unix_sec = 200, nsec = 0\<rparr>,
                       ListCall, DeleteCall ''extra.txt'']\<rparr>)"
  using Sync_phases_sequential [of host1 "mock_opts ''src'' False True"
      "mock_run [(''extra.txt'', \<lparr>Size = 0, ModTime = zero_Time\<rparr>)]"]
  by (simp add: eval_defs)

subsection \<open>Mirror Reconciler\<close>

text \<open>
  C10, as the engine does it. A listed key is kept whenever \<open>os.Stat\<close> of its local
  path succeeds, whatever it reaches there (any \<open>info\<close>, a directory or another
  non-regular file included): the loop passes over the key, and \<open>deleteExtras\<close> neither
  prints a delete line for it nor calls \<open>Delete\<close> on it. Existence is what \<open>os.Stat\<close>
  reports, and \<open>os.Stat\<close> follows symbolic links.
\<close>

theorem deleteExtras_keeps_local_entries:
  assumes "os_Stat h (filepath_Join h (Src opts) (filepath_FromSlash h key)) = Inr info"
  shows "deleteExtras_loop h opts (key # keys) st = deleteExtras_loop h opts keys st
       \<and> (ActDelete key \<in> set (printed (snd (deleteExtras h opts st))) \<longrightarrow> ActDelete key \<in> set (printed st))
       \<and> (DeleteCall key \<in> set (calls (snd (deleteExtras h opts st))) \<longrightarrow> DeleteCall key \<in> set (calls st))"
proof -
  from assms have na: "\<not> locally_absent h opts key" by (simp add: locally_absent_def)
  from deleteExtras_printed [of h opts st] obtain ks where ks:
    "printed (snd (deleteExtras h opts st)) = printed st @ map ActDelete ks"
    "\<forall>k \<in> set ks. locally_absent h opts k"
    "\<forall>k. DeleteCall k \<in> set (calls (snd (deleteExtras h opts st)))
               \<longrightarrow> DeleteCall k \<in> set (calls st) \<or> k \<in> set ks" by blast
  from ks(2) na have "key \<notin> set ks" by blast
  with ks na show ?thesis by (auto simp: deleteExtras_loop_skip)
qed

text \<open>The remote key \<open>locked\<close>, where the tree has a directory, stays; \<open>extra.txt\<close> goes.\<close>

theorem deleteExtras_keeps_local_entries_witness:
  "os_Stat host1 (filepath_Join host1 (Src (mock_opts ''src'' False True)) (filepath_FromSlash host1 ''locked'')) = Inr dir_info
   \<and> fi_IsDir dir_info
   \<and> deleteExtras host1 (mock_opts ''src'' False True)
        (mock_run [(''locked'', \<lparr>Size = 0, ModTime = zero_Time\<rparr>), (''extra.txt'', \<lparr>Size = 0, ModTime = zero_Time\<rparr>)])
      = (None, \<lparr>dst = \<lparr>objects = [(''locked'', \<lparr>Size = 0, ModTime = zero_Time\<rparr>)],
                       putCalls = [], deleteCalls = [''extra.txt'']\<rparr>,
                printed = [ActDelete ''extra.txt''], calls = [ListCall, DeleteCall ''extra.txt'']\<rparr>)
   \<and> ActDelete ''locked'' \<notin> set (printed (snd (deleteExtras host1 (mock_opts ''src'' False True)
        (mock_run [(''locked'', \<lparr>Size = 0, ModTime = zero_Time\<rparr>), (''extra.txt'', \<lparr>Size = 0, ModTime = zero_Time\<rparr>)]))))"
proof -
  have a: "os_Stat host1 (filepath_Join host1 (Src (mock_opts ''src'' False True)) (filepath_FromSlash host1 ''locked'')) = Inr dir_info"
    by (simp add: eval_defs)
  from deleteExtras_keeps_local_entries [OF a, of "[]"
      "mock_run [(''locked'', \<lparr>Size = 0, ModTime = zero_Time\<rparr>), (''extra.txt'', \<lparr>Size = 0, ModTime = zero_Time\<rparr>)]"]
  show ?thesis by (simp add: eval_defs)
qed

text \<open>
  C10 as stated fails for a dangling symbolic link: the tree has an entry at the local
  path of the key \<open>dangling\<close> (the walk visits it, and the upload phase finds the object
  up to date with it), yet \<open>os.Stat\<close> follows the link and reports "not exist", and the
  object is deleted, by the mirror phase alone and by a whole run; a dry run prints the
  delete line.
\<close>

theorem dangling_symlink_deleted_counterexample:
  "VisitEntry ''src/dangling'' (entry_of info_link) \<in> set (WalkDir_visits host4 ''src'')
   \<and> os_Stat host4 (filepath_Join host4 (Src (mock_opts ''src'' False True)) (filepath_FromSlash host4 ''dangling''))
       = Inl ErrNotExist
   \<and> deleteExtras host4 (mock_opts ''src'' False True)
        (mock_run [(''dangling'', \<lparr>Size = 7, ModTime = \<lparr>unix_sec = 300, nsec = 0\<rparr>\<rparr>)])
      = (None, \<lparr>dst = \<lparr>objects = [], putCalls = [], deleteCalls = [''dangling'']\<rparr>,
                printed = [ActDelete ''dangling''], calls = [ListCall, DeleteCall ''dangling'']\<rparr>)
   \<and> Sync host4 (mock_opts ''src'' False True)
        (mock_run [(''dangling'', \<lparr>Size = 7, ModTime = \<lparr>unix_sec = 300, nsec = 0\<rparr>\<rparr>)])
      = (None, \<lparr>dst = \<lparr>objects = [], putCalls = [], deleteCalls = [''dangling'']\<rparr>,
                printed = [ActDelete ''dangling''],
                calls = [StatCall ''dangling'', ListCall, DeleteCall ''dangling'']\<rparr>)
   \<and> printed (snd (Sync host4 (mock_opts ''src'' True True)
        (mock_run [(''dangling'', \<lparr>Size = 7, ModTime = \<lparr>unix_sec = 300, nsec = 0\<rparr>\<rparr>)])))
      = [ActDelete ''dangling'']"
  by (simp add: eval_defs host4_def info_link_def)

text \<open>
  C2, as the engine does it. When \<open>os.Stat\<close> of the local path of a listed key fails
  with an error other than "not exist", the key is kept and the loop goes on with the
  remaining keys: the error is not returned. The only errors \<open>deleteExtras\<close> returns are
  the error of \<open>List\<close> and, in a live run, the wrapped error of a \<open>Delete\<close>.
\<close>

theorem deleteExtras_ignores_stat_failure:
  assumes "os_Stat h (filepath_Join h (Src opts) (filepath_FromSlash h key)) = Inl err"
    and "err \<noteq> ErrNotExist"
  shows "deleteExtras_loop h opts (key # keys) st = deleteExtras_loop h opts keys st
       \<and> (\<forall>e st'. deleteExtras h opts st = (Some e, st') \<longrightarrow>
             fst (Dst_List (Dst opts) (dst st)) = Inl e
             \<or> (\<exists>k e0. locally_absent h opts k \<and> \<not> DryRun opts \<and> e = Errorf (''delete '' @ k) e0))"
proof (intro conjI allI impI)
  from assms have "\<not> locally_absent h opts key"
    by (cases err) (simp_all add: locally_absent_def)
  then show "deleteExtras_loop h opts (key # keys) st = deleteExtras_loop h opts keys st"
    by (rule deleteExtras_loop_skip)
next
  fix e st' assume a: "deleteExtras h opts st = (Some e, st')"
  obtain res s1 where l: "Dst_List (Dst opts) (dst st) = (res, s1)"
    by (cases "Dst_List (Dst opts) (dst st)")
  show "fst (Dst_List (Dst opts) (dst st)) = Inl e
             \<or> (\<exists>k e0. locally_absent h opts k \<and> \<not> DryRun opts \<and> e = Errorf (''delete '' @ k) e0)"
  proof (cases res)
    case (Inl e1)
    with a l show ?thesis by (simp add: deleteExtras_def Let_def)
  next
    case (Inr keys')
    with a l have "deleteExtras_loop h opts keys' (st\<lparr>dst := s1, calls := calls st @ [ListCall]\<rparr>) = (Some e, st')"
      by (simp add: deleteExtras_def Let_def)
    from deleteExtras_loop_error [OF this] show ?thesis by blast
  qed
qed

text \<open>
  The key \<open>a.txt/old\<close> lies below a regular file: \<open>os.Stat\<close> fails with "not a
  directory", the key is skipped and the run ends without error.
\<close>

theorem deleteExtras_ignores_stat_failure_witness:
  "os_Stat host1 (filepath_Join host1 (Src (mock_opts ''src'' False True)) (filepath_FromSlash host1 ''a.txt/old''))
      = Inl ErrNotDir
   \<and> deleteExtras_loop host1 (mock_opts ''src'' False True) [''a.txt/old'', ''extra.txt''] (mock_run [])
      = deleteExtras_loop host1 (mock_opts ''src'' False True) [''extra.txt''] (mock_run [])
   \<and> fst (deleteExtras host1 (mock_opts ''src'' False True)
        (mock_run [(''a.txt/old'', \<lparr>Size = 0, ModTime = zero_Time\<rparr>), (''extra.txt'', \<lparr>Size = 0, ModTime = zero_Time\<rparr>)]))
      = None"
proof -
  have a: "os_Stat host1 (filepath_Join host1 (Src (mock_opts ''src'' False True)) (filepath_FromSlash host1 ''a.txt/old''))
      = Inl ErrNotDir" by (simp add: eval_defs)
  have b: "ErrNotDir \<noteq> ErrNotExist" by simp
  from deleteExtras_ignores_stat_failure [OF a b, of "[''extra.txt'']" "mock_run []"]
  show ?thesis by (simp add: eval_defs)
qed

text \<open>
  C2 as stated fails: the check of the first listed key fails with "permission denied",
  and \<open>deleteExtras\<close> returns no error and goes on to delete \<open>extra.txt\<close>.
\<close>

theorem deleteExtras_stat_failure_counterexample:
  "os_Stat host1 (filepath_Join host1 (Src (mock_opts ''src'' False True)) (filepath_FromSlash host1 ''locked/x.txt''))
      = Inl ErrPermission
   \<and> \<not> os_IsNotExist (Some ErrPermission)
   \<and> deleteExtras host1 (mock_opts ''src'' False True)
        (mock_run [(''locked/x.txt'', \<lparr>Size = 0, ModTime = zero_Time\<rparr>), (''extra.txt'', \<lparr>Size = 0, ModTime = zero_Time\<rparr>)])
      = (None, \<lparr>dst = \<lparr>objects = [(''locked/x.txt'', \<lparr>Size = 0, ModTime = zero_Time\<rparr>)],
                       putCalls = [], deleteCalls = [''extra.txt'']\<rparr>,
                printed = [ActDelete ''extra.txt''], calls = [ListCall, DeleteCall ''extra.txt'']\<rparr>)"
  by (simp add: eval_defs)

subsection \<open>Stat of the S3 backend\<close>

text \<open>
  C8. \<open>Stat\<close> answers a missing object with "absent" and no error: the S3 backend turns
  a failure of \<open>HeadObject\<close> that carries a response error with status 404 into
  \<open>(nil, nil)\<close> and returns every other failure as the error (so over the in-memory
  service a key without object is absent), and the mock returns \<open>(nil, nil)\<close> for a key
  it does not hold. When \<open>Stat\<close> fails for a file of the walk, \<open>Sync\<close> ends there with the
  wrapped error: nothing is printed for the file, \<open>Put\<close> is not called, no later file is
  visited and the mirror phase does not run.
\<close>

theorem Stat_absent_is_not_an_error:
  "(\<forall>err c'. HeadObject (client d) (bucket d) (fullKey (prefix d) rel) c = (Inl err, c')
        \<longrightarrow> S3_Stat d rel c
            = (if as_ResponseError err = Some 404 then Inr None else Inl err, c'))
   \<and> (client d0 = mem_S3 \<and> map_of c0 (fullKey (prefix d0) rel) = None
        \<longrightarrow> S3_Stat d0 rel c0 = (Inr None, c0))
   \<and> (map_of (objects m) key = None \<longrightarrow> mock_Stat key m = (Inr None, m))
   \<and> (\<forall>pre path e post rel0 info st1 err s1.
        validateSrc h (Src opts) = None
        \<and> WalkDir_visits h (Src opts) = pre @ VisitEntry path e # post
        \<and> walk (syncFiles_fn h opts) pre st = (None, st1)
        \<and> \<not> IsDir e \<and> filepath_Rel h (Src opts) path = Inr rel0 \<and> Info e = Inr info
        \<and> Dst_Stat (Dst opts) (filepath_ToSlash h rel0) (dst st1) = (Inl err, s1)
        \<longrightarrow> Sync h opts st
            = (Some (Errorf (''stat '' @ filepath_ToSlash h rel0) err),
               st1\<lparr>dst := s1, calls := calls st1 @ [StatCall (filepath_ToSlash h rel0)]\<rparr>))"
proof (intro conjI allI impI)
  fix err c' assume "HeadObject (client d) (bucket d) (fullKey (prefix d) rel) c = (Inl err, c')"
  then show "S3_Stat d rel c = (if as_ResponseError err = Some 404 then Inr None else Inl err, c')"
    by (simp add: S3_Stat_def StatusNotFound_def)
next
  assume "client d0 = mem_S3 \<and> map_of c0 (fullKey (prefix d0) rel) = None"
  then show "S3_Stat d0 rel c0 = (Inr None, c0)"
    by (simp add: S3_Stat_def StatusNotFound_def mem_S3_def mem_HeadObject_def)
next
  assume "map_of (objects m) key = None"
  then show "mock_Stat key m = (Inr None, m)" by (simp add: mock_Stat_def)
next
  fix pre path e post rel0 info st1 err s1
  assume a: "validateSrc h (Src opts) = None
        \<and> WalkDir_visits h (Src opts) = pre @ VisitEntry path e # post
        \<and> walk (syncFiles_fn h opts) pre st = (None, st1)
        \<and> \<not> IsDir e \<and> filepath_Rel h (Src opts) path = Inr rel0 \<and> Info e = Inr info
        \<and> Dst_Stat (Dst opts) (filepath_ToSlash h rel0) (dst st1) = (Inl err, s1)"
  then have "syncFiles_fn h opts (VisitEntry path e) st1 =
     (Some (Errorf (''stat '' @ filepath_ToSlash h rel0) err),
      st1\<lparr>dst := s1, calls := calls st1 @ [StatCall (filepath_ToSlash h rel0)]\<rparr>)"
    by (intro syncFiles_fn_stat_error) auto
  with a have "syncFiles h opts st = (Some (Errorf (''stat '' @ filepath_ToSlash h rel0) err),
      st1\<lparr>dst := s1, calls := calls st1 @ [StatCall (filepath_ToSlash h rel0)]\<rparr>)"
    by (simp add: syncFiles_def filepath_WalkDir_def walk_append)
  with a show "Sync h opts st
            = (Some (Errorf (''stat '' @ filepath_ToSlash h rel0) err),
               st1\<lparr>dst := s1, calls := calls st1 @ [StatCall (filepath_ToSlash h rel0)]\<rparr>)"
    by (simp add: Sync_def)
qed

text \<open>
  Over a service that denies \<open>HeadObject\<close>, the run ends at the first file, after one
  call of \<open>Stat\<close>.
\<close>

theorem Stat_absent_is_not_an_error_witness:
  "S3_Stat \<lparr>client = mem_S3, bucket = ''my-backup-bucket'', prefix = ''backups'', storageClass = ''GLACIER_IR''\<rparr> ''a.txt'' []
     = (Inr None, [])
   \<and> Sync host1 (s3_opts forbidden_S3 ''backups'' ''src'' False True) (s3_run [])
     = (Some (Errorf ''stat a.txt'' (Errorf ''operation error S3: HeadObject'' (ResponseError 403))),
        \<lparr>dst = [], printed = [], calls = [StatCall ''a.txt'']\<rparr>)"
proof -
  have a: "validateSrc host1 (Src (s3_opts forbidden_S3 ''backups'' ''src'' False True)) = None
        \<and> WalkDir_visits host1 (Src (s3_opts forbidden_S3 ''backups'' ''src'' False True))
            = [VisitEntry ''src'' (entry_of dir_info)] @ VisitEntry ''src/a.txt'' (entry_of info_a)
                # [VisitEntry ''src/b.txt'' (entry_of info_b), VisitEntry ''src/locked'' (entry_of dir_info)]
        \<and> walk (syncFiles_fn host1 (s3_opts forbidden_S3 ''backups'' ''src'' False True)) [VisitEntry ''src'' (entry_of dir_info)] (s3_run [])
            = (None, s3_run [])
        \<and> \<not> IsDir (entry_of info_a)
        \<and> filepath_Rel host1 (Src (s3_opts forbidden_S3 ''backups'' ''src'' False True)) ''src/a.txt'' = Inr ''a.txt''
        \<and> Info (entry_of info_a) = Inr info_a
        \<and> Dst_Stat (Dst (s3_opts forbidden_S3 ''backups'' ''src'' False True)) (filepath_ToSlash host1 ''a.txt'') (dst (s3_run []))
            = (Inl (Errorf ''operation error S3: HeadObject'' (ResponseError 403)), [])"
    by (simp add: eval_defs)
  from Stat_absent_is_not_an_error [where
      d0 = "\<lparr>client = mem_S3, bucket = ''my-backup-bucket'', prefix = ''backups'', storageClass = ''GLACIER_IR''\<rparr>"
      and rel = "''a.txt''" and c0 = "[]" and h = host1
      and opts = "s3_opts forbidden_S3 ''backups'' ''src'' False True" and st = "s3_run []"] a
  show ?thesis by (simp add: eval_defs)
qed




subsection \<open>Runs on a well-behaved destination\<close>









lemma locally_absent_DryRun [simp]: "locally_absent h (opts\<lparr>DryRun := b\<rparr>) = locally_absent h opts"
  by (rule ext) (simp add: locally_absent_def)

















subsection \<open>The in-memory service is well behaved\<close>









subsection \<open>Dry run\<close>




subsection \<open>FormatInt and ParseInt\<close>







subsection \<open>Two runs in sequence\<close>











end
